theory Spec2Isabelle
  imports Complex_Main
begin

section \<open>Transport errors (js/src/api/transport/error.js)\<close>

text \<open>
  A JavaScript number is a finite value, \<^verbatim>\<open>NaN\<close> or an infinity. A finite value is given
  by the rational number it denotes (\<^verbatim>\<open>-0\<close> and \<^verbatim>\<open>0\<close> are strictly equal and both print
  as \<^verbatim>\<open>0\<close>, so they are one value).
\<close>

datatype js_number = Finite rat | NaN | PosInfinity | NegInfinity

text \<open>
  \<^verbatim>\<open>ERROR_CODES\<close> is an object literal; \<^verbatim>\<open>Object.keys\<close> lists its keys in insertion
  order, so the table is an association list in the order of the source.
\<close>

definition ERROR_CODES :: "(string \<times> js_number) list" where
  "ERROR_CODES =
    [(''UNSUPPORTED_REQUEST'', Finite (-32000)),
     (''NO_WORK'', Finite (-32001)),
     (''NO_AUTHOR'', Finite (-32002)),
     (''NO_NEW_WORK'', Finite (-32003)),
     (''NOT_ENOUGH_DATA'', Finite (-32006)),
     (''UNKNOWN_ERROR'', Finite (-32009)),
     (''TRANSACTION_ERROR'', Finite (-32010)),
     (''EXECUTION_ERROR'', Finite (-32015)),
     (''ACCOUNT_LOCKED'', Finite (-32020)),
     (''PASSWORD_INVALID'', Finite (-32021)),
     (''ACCOUNT_ERROR'', Finite (-32023)),
     (''SIGNER_DISABLED'', Finite (-32030)),
     (''DAPPS_DISABLED'', Finite (-32031)),
     (''NETWORK_DISABLED'', Finite (-32035)),
     (''REQUEST_REJECTED'', Finite (-32040)),
     (''REQUEST_REJECTED_LIMIT'', Finite (-32041)),
     (''REQUEST_NOT_FOUND'', Finite (-32042)),
     (''COMPILATION_ERROR'', Finite (-32050)),
     (''ENCRYPTION_ERROR'', Finite (-32055)),
     (''FETCH_ERROR'', Finite (-32060)),
     (''INVALID_PARAMS'', Finite (-32602))]"

text \<open>
  The template literal \<^verbatim>\<open>`${method}: ${code}: ${message}`\<close> renders the numeric code
  with JavaScript's number-to-string conversion. For a safe integer (an integer of
  magnitude at most \<open>2^53 - 1\<close>) the conversion gives the decimal numeral, with a leading
  minus sign for a negative one; \<^verbatim>\<open>NaN\<close> and the infinities print as their names. Every
  other finite number (a fraction, or a magnitude from \<open>2^53\<close> on, where the conversion
  prints shortest round-trip digits and, from \<open>10^21\<close>, an exponent) is rendered by the
  language's own algorithm, which is a parameter here.
\<close>

definition digit_char :: "nat \<Rightarrow> char" where
  "digit_char d = ''0123456789'' ! d"

fun nat_to_string :: "nat \<Rightarrow> string" where
  "nat_to_string n =
     (if n < 10 then [digit_char n]
      else nat_to_string (n div 10) @ [digit_char (n mod 10)])"

declare nat_to_string.simps [simp del]

definition is_safe_integer :: "rat \<Rightarrow> bool" where
  "is_safe_integer c = (c = of_int \<lfloor>c\<rfloor> \<and> \<bar>c\<bar> \<le> 9007199254740991)"

definition number_to_string :: "(rat \<Rightarrow> string) \<Rightarrow> js_number \<Rightarrow> string" where
  "number_to_string engine x =
     (case x of
        NaN \<Rightarrow> ''NaN''
      | PosInfinity \<Rightarrow> ''Infinity''
      | NegInfinity \<Rightarrow> ''-Infinity''
      | Finite c \<Rightarrow>
          if is_safe_integer c then
            (if c < 0 then CHR ''-'' # nat_to_string (nat (- \<lfloor>c\<rfloor>))
             else nat_to_string (nat \<lfloor>c\<rfloor>))
          else engine c)"

text \<open>
  Reading a decimal numeral back: the number that a string of decimal digits denotes.
  It is used to state what the rendering of a code is, not by the constructor.
\<close>

definition digit_value :: "char \<Rightarrow> nat" where
  "digit_value ch = of_char ch - 48"

definition decimal_value :: "string \<Rightarrow> nat" where
  "decimal_value ds = foldl (\<lambda>a ch. 10 * a + digit_value ch) 0 ds"

text \<open>
  The fields of a \<^verbatim>\<open>TransportError\<close>: \<open>message\<close> is what the constructor hands to
  \<^verbatim>\<open>super\<close>, the four others are assigned in the constructor body (\<open>method_field\<close> is
  \<^verbatim>\<open>this.method\<close>, \<open>text_field\<close> is \<^verbatim>\<open>this.text\<close>).
\<close>

record transport_error =
  message :: string
  code :: js_number
  type :: string
  method_field :: string
  text_field :: string

text \<open>
  \<^verbatim>\<open>Object.keys(ERROR_CODES).find((k) => ERROR_CODES[k] === code) || ''\<close>: the first
  key, in table order, whose value is the code; \<^verbatim>\<open>find\<close> gives \<^verbatim>\<open>undefined\<close> when there
  is none, and \<^verbatim>\<open>|| ''\<close> turns that (and an empty key) into the empty string. Strict
  equality of numbers is equality of values except that \<^verbatim>\<open>NaN\<close> equals nothing; the table
  holds no \<^verbatim>\<open>NaN\<close>, so equality with a table value is strict equality.
\<close>

definition lookup_type :: "js_number \<Rightarrow> string" where
  "lookup_type c =
     (case find (\<lambda>k. map_of ERROR_CODES k = Some c) (map fst ERROR_CODES) of
        None \<Rightarrow> ''''
      | Some k \<Rightarrow> (if k = '''' then '''' else k))"

definition TransportError ::
  "(rat \<Rightarrow> string) \<Rightarrow> string \<Rightarrow> js_number \<Rightarrow> string \<Rightarrow> transport_error" where
  "TransportError engine meth c msg =
     (let m = meth @ '': '' @ number_to_string engine c @ '': '' @ msg
      in \<lparr> message = m, code = c, type = lookup_type c, method_field = meth,
           text_field = msg \<rparr>)"

text \<open>
  For concrete runs on safe integers the rendering of the other numbers is not used;
  this stand-in leaves them blank.
\<close>

definition blank :: "rat \<Rightarrow> string" where
  "blank c = []"

section \<open>Dapp registry write helpers (js/src/dapps/dappreg/utils.js)\<close>

text \<open>
  Gas estimates are \<^verbatim>\<open>BigNumber\<close> values of the bignumber.js library: arbitrary-precision
  decimals with exact multiplication, so a rational number stands for one.
  \<^verbatim>\<open>gas.mul(1.2)\<close> multiplies by the decimal \<open>12/10\<close>. \<^verbatim>\<open>toFixed(0)\<close> rounds to zero
  decimal places in the library's default rounding mode \<^verbatim>\<open>ROUND_HALF_UP\<close> (to the nearest
  integer, a tie away from zero) and returns the decimal string of the result; the
  string is represented by the integer it denotes.
\<close>

type_synonym BigNumber = rat

definition mul :: "BigNumber \<Rightarrow> BigNumber \<Rightarrow> BigNumber" where
  "mul a b = a * b"

definition toFixed0 :: "BigNumber \<Rightarrow> int" where
  "toFixed0 x = (if x < 0 then - \<lfloor>- x + 1 / 2\<rfloor> else \<lfloor>x + 1 / 2\<rfloor>)"

text \<open>
  The \<^verbatim>\<open>gas\<close> option is a decimal string where the helper calls \<^verbatim>\<open>toFixed(0)\<close> and
  a \<^verbatim>\<open>BigNumber\<close> where it does not.
\<close>

datatype gas_value = GasString int | GasBigNumber BigNumber

record options =
  opt_from :: "string option"
  opt_value :: "BigNumber option"
  opt_gas :: "gas_value option"

text \<open>
  A promise settles with a value, settles with an error, or stays pending. What the
  backend answers to \<^verbatim>\<open>call\<close>, \<^verbatim>\<open>estimateGas\<close> and \<^verbatim>\<open>postTransaction\<close> of a contract
  method is a parameter; a contract instance maps method names to such answers.
\<close>

datatype 'a promise = Resolved 'a | Rejected string | Pending

record contract_method =
  call_answer :: "options \<Rightarrow> string list \<Rightarrow> BigNumber promise"
  estimateGas_answer :: "options \<Rightarrow> string list \<Rightarrow> BigNumber promise"
  postTransaction_answer :: "options \<Rightarrow> string list \<Rightarrow> string promise"

type_synonym contract_instance = "string \<Rightarrow> contract_method"

text \<open>
  Every request to the backend is appended to a log, with the options as they are at
  the moment of the call (the source mutates the one \<^verbatim>\<open>options\<close> object between the
  estimate and the submission).
\<close>

datatype event =
    Call string options "string list"
  | EstimateGas string options "string list"
  | PostTransaction string options "string list"

type_synonym 'a io = "event list \<Rightarrow> 'a promise \<times> event list"

text \<open>\<^verbatim>\<open>p.then(f)\<close>: \<open>f\<close> runs only once \<open>p\<close> has resolved; a rejection is passed on.\<close>

definition then_io :: "'a io \<Rightarrow> ('a \<Rightarrow> 'b io) \<Rightarrow> 'b io" where
  "then_io p f trace =
     (case p trace of
        (Resolved v, trace') \<Rightarrow> f v trace'
      | (Rejected e, trace') \<Rightarrow> (Rejected e, trace')
      | (Pending, trace') \<Rightarrow> (Pending, trace'))"

definition call :: "contract_instance \<Rightarrow> string \<Rightarrow> options \<Rightarrow> string list \<Rightarrow> BigNumber io" where
  "call inst name opts vals trace =
     (call_answer (inst name) opts vals, trace @ [Call name opts vals])"

definition estimateGas ::
  "contract_instance \<Rightarrow> string \<Rightarrow> options \<Rightarrow> string list \<Rightarrow> BigNumber io" where
  "estimateGas inst name opts vals trace =
     (estimateGas_answer (inst name) opts vals, trace @ [EstimateGas name opts vals])"

definition postTransaction ::
  "contract_instance \<Rightarrow> string \<Rightarrow> options \<Rightarrow> string list \<Rightarrow> string io" where
  "postTransaction inst name opts vals trace =
     (postTransaction_answer (inst name) opts vals, trace @ [PostTransaction name opts vals])"

definition empty_options :: options where
  "empty_options = \<lparr> opt_from = None, opt_value = None, opt_gas = None \<rparr>"

definition registerGHH :: "contract_instance \<Rightarrow> string \<Rightarrow> string \<Rightarrow> string \<Rightarrow> string io" where
  "registerGHH inst url hash owner =
     (let vals = [hash, url];
          opts = empty_options \<lparr> opt_from := Some owner \<rparr>
      in then_io (estimateGas inst ''hintURL'' opts vals)
           (\<lambda>gas. let opts' = opts \<lparr> opt_gas := Some (GasString (toFixed0 (mul gas (12 / 10)))) \<rparr>
                   in postTransaction inst ''hintURL'' opts' vals))"

definition registerDapp :: "string \<Rightarrow> contract_instance \<Rightarrow> string io" where
  "registerDapp dappId dappRegInstance =
     (let vals = [dappId];
          opts = empty_options
      in then_io (call dappRegInstance ''fee'' empty_options [])
           (\<lambda>fee. let opts1 = opts \<lparr> opt_value := Some fee \<rparr>
                   in then_io (estimateGas dappRegInstance ''register'' opts1 vals)
                        (\<lambda>gas. let opts2 = opts1 \<lparr> opt_gas :=
                                       Some (GasString (toFixed0 (mul gas (12 / 10)))) \<rparr>
                                in postTransaction dappRegInstance ''register'' opts2 vals)))"

definition deleteDapp :: "string \<Rightarrow> string \<Rightarrow> contract_instance \<Rightarrow> string io" where
  "deleteDapp dappId dappOwner dappRegInstance =
     (let vals = [dappId];
          opts = empty_options \<lparr> opt_from := Some dappOwner \<rparr>
      in then_io (estimateGas dappRegInstance ''unregister'' opts vals)
           (\<lambda>gas. let opts' = opts \<lparr> opt_gas := Some (GasString (toFixed0 (mul gas (12 / 10)))) \<rparr>
                   in postTransaction dappRegInstance ''unregister'' opts' vals))"

definition updateDappOwner :: "string \<Rightarrow> string \<Rightarrow> string \<Rightarrow> contract_instance \<Rightarrow> string io" where
  "updateDappOwner dappId dappOwner nextOwnerAddress dappRegInstance =
     (let opts = empty_options \<lparr> opt_from := Some dappOwner \<rparr>;
          vals = [dappId, nextOwnerAddress]
      in then_io (estimateGas dappRegInstance ''setDappOwner'' opts vals)
           (\<lambda>gas. let opts' = opts \<lparr> opt_gas := Some (GasBigNumber (mul gas (12 / 10))) \<rparr>
                   in postTransaction dappRegInstance ''setDappOwner'' opts' vals))"

text \<open>Reading a trace: the gas limits of the submitted transactions, and event kinds.\<close>

fun submitted_gas :: "event list \<Rightarrow> gas_value option list" where
  "submitted_gas [] = []"
| "submitted_gas (PostTransaction name opts vals # es) = opt_gas opts # submitted_gas es"
| "submitted_gas (e # es) = submitted_gas es"

fun is_post :: "event \<Rightarrow> bool" where
  "is_post (PostTransaction name opts vals) = True"
| "is_post e = False"

fun is_estimate :: "event \<Rightarrow> bool" where
  "is_estimate (EstimateGas name opts vals) = True"
| "is_estimate e = False"

text \<open>
  A backend for concrete runs: every method answers a fee call and a gas estimate with
  the given promises and accepts a submission with the request id \<open>0x1\<close>.
\<close>

definition backend :: "BigNumber promise \<Rightarrow> BigNumber promise \<Rightarrow> contract_instance" where
  "backend fee estimate name =
     \<lparr> call_answer = (\<lambda>opts vals. fee),
       estimateGas_answer = (\<lambda>opts vals. estimate),
       postTransaction_answer = (\<lambda>opts vals. Resolved ''0x1'') \<rparr>"

section \<open>Transfer wizard (the Transfer modal)\<close>

text \<open>
  The fields of the transfer store that the modal reads. \<^verbatim>\<open>txhash\<close>, \<^verbatim>\<open>operation\<close> and
  \<^verbatim>\<open>busyState\<close> are strings or \<^verbatim>\<open>null\<close>; \<open>histogram\<close> says whether
  \<^verbatim>\<open>gasStore.histogram\<close> is present. The store's own code (its handlers \<^verbatim>\<open>onNext\<close>,
  \<^verbatim>\<open>onPrev\<close>, \<^verbatim>\<open>onSend\<close>) is outside the modal; a button names its handler, and what
  the handlers do is given with the state machine below.
\<close>

record store =
  stage :: int
  extras :: bool
  sending :: bool
  rejected :: bool
  isValid :: bool
  txhash :: "string option"
  operation :: "string option"
  busyState :: "string option"
  histogram :: bool

datatype handler = handleClose | onNext | onPrev | onSend

datatype icon =
    ContentClear
  | NavigationArrowForward
  | NavigationArrowBack
  | IdentityIcon string
  | ActionDoneAll

text \<open>A \<^verbatim>\<open>Button\<close> given no \<^verbatim>\<open>disabled\<close> property is enabled.\<close>

record button =
  disabled :: bool
  button_icon :: icon
  label :: string
  onClick :: handler

definition cancelBtn :: button where
  "cancelBtn = \<lparr> disabled = False, button_icon = ContentClear, label = ''Cancel'',
                 onClick = handleClose \<rparr>"

definition nextBtn :: "store \<Rightarrow> button" where
  "nextBtn s = \<lparr> disabled = (\<not> isValid s), button_icon = NavigationArrowForward,
                 label = ''Next'', onClick = onNext \<rparr>"

definition prevBtn :: button where
  "prevBtn = \<lparr> disabled = False, button_icon = NavigationArrowBack, label = ''Back'',
               onClick = onPrev \<rparr>"

definition sendBtn :: "string \<Rightarrow> store \<Rightarrow> button" where
  "sendBtn address s = \<lparr> disabled = (\<not> isValid s \<or> sending s),
                         button_icon = IdentityIcon address, label = ''Send'',
                         onClick = onSend \<rparr>"

definition doneBtn :: button where
  "doneBtn = \<lparr> disabled = False, button_icon = ActionDoneAll, label = ''Close'',
               onClick = handleClose \<rparr>"

definition renderDialogActions :: "string \<Rightarrow> store \<Rightarrow> button list" where
  "renderDialogActions address s =
     (if stage s = 0 then
        (if extras s then [cancelBtn, nextBtn s] else [cancelBtn, sendBtn address s])
      else if stage s = 1 then
        (if extras s then [cancelBtn, prevBtn, sendBtn address s] else [doneBtn])
      else [doneBtn])"

text \<open>
  What a page renderer returns: one of the page components, or \<^verbatim>\<open>null\<close> (\<open>None\<close>).
  The properties handed to \<^verbatim>\<open>Details\<close> and \<^verbatim>\<open>Extras\<close> are form fields and are left
  out. A \<^verbatim>\<open>CompletedStep\<close> holds the \<^verbatim>\<open>hash\<close> property of its \<^verbatim>\<open>TxHash\<close> and, when the
  operation input is rendered, the \<^verbatim>\<open>value\<close> property of that input.
\<close>

datatype page =
    Details
  | Extras
  | BusyStep string "string option"
  | CompletedStep "string option" "string option"

text \<open>JavaScript truthiness of a string or \<^verbatim>\<open>null\<close>: a non-empty string.\<close>

fun truthy :: "string option \<Rightarrow> bool" where
  "truthy None = False"
| "truthy (Some v) = (v \<noteq> [])"

definition renderCompletePage :: "store \<Rightarrow> page option" where
  "renderCompletePage s =
     (if rejected s then
        Some (BusyStep ''The transaction has been rejected''
                (Some ''You can safely close this window, the transfer will not occur.''))
      else if sending s then
        Some (BusyStep ''The transaction is in progress'' (busyState s))
      else
        Some (CompletedStep (txhash s) (if truthy (operation s) then operation s else None)))"

definition renderDetailsPage :: "store \<Rightarrow> page option" where
  "renderDetailsPage s = Some Details"

definition renderExtrasPage :: "store \<Rightarrow> page option" where
  "renderExtrasPage s = (if \<not> histogram s then None else Some Extras)"

definition renderPage :: "store \<Rightarrow> page option" where
  "renderPage s =
     (if stage s = 0 then renderDetailsPage s
      else if stage s = 1 \<and> extras s then renderExtrasPage s
      else renderCompletePage s)"

text \<open>Page kinds, and a store for concrete runs.\<close>

fun is_details :: "page option \<Rightarrow> bool" where
  "is_details (Some Details) = True"
| "is_details p = False"

fun is_extras :: "page option \<Rightarrow> bool" where
  "is_extras (Some Extras) = True"
| "is_extras p = False"

fun is_complete :: "page option \<Rightarrow> bool" where
  "is_complete (Some (BusyStep t st)) = True"
| "is_complete (Some (CompletedStep h oper)) = True"
| "is_complete p = False"

definition store0 :: store where
  "store0 = \<lparr> stage = 0, extras = False, sending = False, rejected = False,
               isValid = True, txhash = None, operation = None, busyState = None,
               histogram = False \<rparr>"

subsection \<open>The state machine behind the buttons\<close>

text \<open>
  Modelled from the spec: the store's handlers \<^verbatim>\<open>onNext\<close>, \<^verbatim>\<open>onPrev\<close>, \<^verbatim>\<open>onSend\<close> and
  \<^verbatim>\<open>handleClose\<close> (the module \<^verbatim>\<open>./store\<close>) are not among the sources; the modal's own
  \<^verbatim>\<open>handleClose\<close> calls the store's and then the \<^verbatim>\<open>onClose\<close> property. The spec has
  the wizard state machine own the stage, advance and retreat between steps and trigger
  submission, with the user actions next, back, send and close: next advances one
  step, back retreats one step, send enters Submitting (the step after the current
  one, with a send in progress; the modal marks that step as the waiting one), and
  closing the modal abandons the machine, which then has no further state (\<open>None\<close>).
\<close>

fun handle :: "handler \<Rightarrow> store \<Rightarrow> store option" where
  "handle onNext s = Some (s \<lparr> stage := stage s + 1 \<rparr>)"
| "handle onPrev s = Some (s \<lparr> stage := stage s - 1 \<rparr>)"
| "handle onSend s = Some (s \<lparr> stage := stage s + 1, sending := True \<rparr>)"
| "handle handleClose s = None"

text \<open>
  Modelled from the spec: the \<^verbatim>\<open>Button\<close> component (\<^verbatim>\<open>~/ui\<close>) is not among the sources.
  A click on a disabled button leaves the store as it is (validation errors block
  progression); a click on an enabled button runs its handler.
\<close>

definition click :: "button \<Rightarrow> store \<Rightarrow> store option" where
  "click b s = (if disabled b then Some s else handle (onClick b) s)"

text \<open>
  Modelled from the spec: the stage of the spec's state machine (Details, Extras,
  Submitting, Completed, Rejected) that a store is in. It follows the pages of
  \<^verbatim>\<open>renderPage\<close> and \<^verbatim>\<open>renderCompletePage\<close>: stage 0 is Details, stage 1 with extras is
  Extras, and a later stage is Rejected when the store is rejected, Submitting while a
  send is in progress and Completed otherwise.
\<close>

datatype wizard_stage =
  StageDetails | StageExtras | StageSubmitting | StageCompleted | StageRejected

definition wizard_stage_of :: "store \<Rightarrow> wizard_stage" where
  "wizard_stage_of s =
     (if stage s = 0 then StageDetails
      else if stage s = 1 \<and> extras s then StageExtras
      else if rejected s then StageRejected
      else if sending s then StageSubmitting
      else StageCompleted)"

section \<open>Step indicator (the Steps component)\<close>







section \<open>Dapp registry root reducer (js/src/dapps/registry/reducers.js)\<close>

text \<open>
  The four sub-reducers live in other modules and are parameters. A sub-reducer takes
  its part of the state, or \<^verbatim>\<open>undefined\<close> (\<open>None\<close>), and the action.
\<close>

record 'v action =
  action_type :: string
  action_contract :: "'v option"
  action_fee :: "'v option"
  action_owner :: "'v option"

record ('a, 'l, 'e, 'r, 'v) state =
  accounts :: 'a
  contract :: "'v option"
  fee :: "'v option"
  owner :: "'v option"
  lookup :: 'l
  events :: 'e
  register :: 'r

record ('a, 'l, 'e, 'r, 'v) reducers =
  accountsReducer :: "'a option \<Rightarrow> 'v action \<Rightarrow> 'a"
  lookupReducer :: "'l option \<Rightarrow> 'v action \<Rightarrow> 'l"
  eventsReducer :: "'e option \<Rightarrow> 'v action \<Rightarrow> 'e"
  registerReducer :: "'r option \<Rightarrow> 'v action \<Rightarrow> 'r"

definition empty_action :: "'v action" where
  "empty_action = \<lparr> action_type = [], action_contract = None, action_fee = None,
                     action_owner = None \<rparr>"

definition initialState ::
  "('a, 'l, 'e, 'r, 'v) reducers \<Rightarrow> ('a, 'l, 'e, 'r, 'v) state" where
  "initialState rs =
     \<lparr> accounts = accountsReducer rs None empty_action,
       contract = None,
       fee = None,
       owner = None,
       lookup = lookupReducer rs None empty_action,
       events = eventsReducer rs None empty_action,
       register = registerReducer rs None empty_action \<rparr>"

definition reducer ::
  "('a, 'l, 'e, 'r, 'v) reducers \<Rightarrow> ('a, 'l, 'e, 'r, 'v) state option \<Rightarrow> 'v action
     \<Rightarrow> ('a, 'l, 'e, 'r, 'v) state" where
  "reducer rs st a =
     (let s = (case st of None \<Rightarrow> initialState rs | Some s' \<Rightarrow> s')
      in if take 8 (action_type a) = ''accounts'' then
           s \<lparr> accounts := accountsReducer rs (Some (accounts s)) a \<rparr>
         else if action_type a = ''set contract'' then s \<lparr> contract := action_contract a \<rparr>
         else if action_type a = ''set fee'' then s \<lparr> fee := action_fee a \<rparr>
         else if action_type a = ''set owner'' then s \<lparr> owner := action_owner a \<rparr>
         else if take 6 (action_type a) = ''lookup'' then
           s \<lparr> lookup := lookupReducer rs (Some (lookup s)) a \<rparr>
         else if take 6 (action_type a) = ''events'' then
           s \<lparr> events := eventsReducer rs (Some (events s)) a \<rparr>
         else if take 8 (action_type a) = ''register'' then
           s \<lparr> register := registerReducer rs (Some (register s)) a \<rparr>
         else s)"

text \<open>Sub-reducers and a state for concrete runs: each sub-state counts its actions.\<close>

definition counting :: "nat option \<Rightarrow> 'v action \<Rightarrow> nat" where
  "counting st a = (case st of None \<Rightarrow> 0 | Some n \<Rightarrow> Suc n)"

definition counters :: "(nat, nat, nat, nat, string) reducers" where
  "counters = \<lparr> accountsReducer = counting, lookupReducer = counting,
                 eventsReducer = counting, registerReducer = counting \<rparr>"

section \<open>Properties of transport errors\<close>

subsection \<open>The decimal rendering\<close>

lemma nat_to_string_digit: "n < 10 \<Longrightarrow> nat_to_string n = [digit_char n]"
  by (simp add: nat_to_string.simps)

lemma nat_to_string_more:
  "10 \<le> n \<Longrightarrow> nat_to_string n = nat_to_string (n div 10) @ [digit_char (n mod 10)]"
  by (subst nat_to_string.simps) simp

lemma below_ten:
  fixes d :: nat
  assumes "d < 10"
  shows "d \<in> {0, 1, 2, 3, 4, 5, 6, 7, 8, 9}"
  using assms by (simp only: insert_iff empty_iff) arith

lemma digit_char_cases:
  assumes "d < 10"
  shows "digit_char d \<in> set ''0123456789''" and "digit_value (digit_char d) = d"
    and "digit_char d = CHR ''0'' \<longleftrightarrow> d = 0"
  using below_ten [OF assms]
  by (auto simp add: digit_char_def digit_value_def)

lemma decimal_value_snoc:
  "decimal_value (ds @ [ch]) = 10 * decimal_value ds + digit_value ch"
  by (simp add: decimal_value_def)

lemma nat_to_string_nonempty: "nat_to_string n \<noteq> []"
  by (subst nat_to_string.simps) simp

lemma nat_to_string_digits: "set (nat_to_string n) \<subseteq> set ''0123456789''"
proof (induction n rule: nat_to_string.induct)
  case (1 n)
  show ?case
  proof (cases "n < 10")
    case True
    then show ?thesis
      using digit_char_cases(1) [of n] by (simp only: nat_to_string_digit) simp
  next
    case False
    then have "n mod 10 < 10" and more: "10 \<le> n" by simp_all
    then have "digit_char (n mod 10) \<in> set ''0123456789''"
      using digit_char_cases(1) by blast
    with 1 False show ?thesis
      by (simp only: nat_to_string_more [OF more]) simp
  qed
qed

lemma decimal_value_nat_to_string: "decimal_value (nat_to_string n) = n"
proof (induction n rule: nat_to_string.induct)
  case (1 n)
  show ?case
  proof (cases "n < 10")
    case True
    then show ?thesis
      by (simp add: nat_to_string_digit decimal_value_def digit_char_cases(2))
  next
    case False
    then have more: "10 \<le> n" by simp
    have "decimal_value (nat_to_string n)
            = 10 * decimal_value (nat_to_string (n div 10)) + digit_value (digit_char (n mod 10))"
      by (simp only: nat_to_string_more [OF more] decimal_value_snoc)
    also have "\<dots> = 10 * (n div 10) + n mod 10"
      using 1 False by (simp add: digit_char_cases(2))
    finally show ?thesis by simp
  qed
qed

lemma hd_nat_to_string: "hd (nat_to_string n) = CHR ''0'' \<longleftrightarrow> n = 0"
proof (induction n rule: nat_to_string.induct)
  case (1 n)
  show ?case
  proof (cases "n < 10")
    case True
    then show ?thesis
      by (simp add: nat_to_string_digit digit_char_cases(3))
  next
    case False
    then have more: "10 \<le> n" by simp
    have "hd (nat_to_string n) = hd (nat_to_string (n div 10))"
      by (simp add: nat_to_string_more [OF more] nat_to_string_nonempty)
    with 1 False more show ?thesis by simp
  qed
qed

lemma nat_to_string_zero: "nat_to_string 0 = ''0''"
  by (simp add: nat_to_string_digit digit_char_def)

lemma safe_integer_rendering:
  assumes "is_safe_integer c"
  shows "\<exists>ds. number_to_string engine (Finite c) = (if c < 0 then ''-'' else []) @ ds
           \<and> ds \<noteq> [] \<and> set ds \<subseteq> set ''0123456789''
           \<and> (hd ds = CHR ''0'' \<longrightarrow> ds = ''0'')
           \<and> of_nat (decimal_value ds) = \<bar>c\<bar>"
proof -
  define n where "n = nat \<bar>\<lfloor>c\<rfloor>\<bar>"
  from assms have int: "c = of_int \<lfloor>c\<rfloor>"
    by (simp add: is_safe_integer_def)
  have abs: "(of_nat n :: rat) = \<bar>c\<bar>"
  proof -
    have "(of_nat n :: rat) = of_int \<bar>\<lfloor>c\<rfloor>\<bar>"
      by (simp add: n_def)
    also have "\<dots> = \<bar>of_int \<lfloor>c\<rfloor>\<bar>"
      by simp
    also have "\<dots> = \<bar>c\<bar>"
      using int by simp
    finally show ?thesis .
  qed
  have sign: "c < 0 \<longleftrightarrow> \<lfloor>c\<rfloor> < 0"
    using int by (metis of_int_less_0_iff)
  have render: "number_to_string engine (Finite c)
                  = (if c < 0 then ''-'' else []) @ nat_to_string n"
    using assms sign by (simp add: number_to_string_def n_def)
  have "hd (nat_to_string n) = CHR ''0'' \<longrightarrow> nat_to_string n = ''0''"
    by (simp add: hd_nat_to_string nat_to_string_zero)
  with render nat_to_string_nonempty nat_to_string_digits abs show ?thesis
    by (intro exI [of _ "nat_to_string n"]) (simp add: decimal_value_nat_to_string)
qed

lemmas render_number =
  nat_to_string_digit nat_to_string_more number_to_string_def is_safe_integer_def
  digit_char_def

subsection \<open>The code table\<close>

lemma ERROR_CODES_values_distinct: "distinct (map snd ERROR_CODES)"
  by (simp add: ERROR_CODES_def)

lemma ERROR_CODES_keys_distinct: "distinct (map fst ERROR_CODES)"
  by (simp add: ERROR_CODES_def)

lemma ERROR_CODES_safe:
  "list_all (\<lambda>v. case v of Finite c \<Rightarrow> is_safe_integer c | _ \<Rightarrow> False) (map snd ERROR_CODES)"
  by (simp add: ERROR_CODES_def is_safe_integer_def)

lemma lookup_type_member:
  assumes "(k, c) \<in> set ERROR_CODES"
  shows "lookup_type c = k"
  using assms unfolding ERROR_CODES_def
  apply (simp only: set_simps insert_iff empty_iff)
  apply (elim disjE)
  apply (simp_all add: lookup_type_def ERROR_CODES_def)
  done

lemma lookup_type_unknown:
  assumes "c \<notin> snd ` set ERROR_CODES"
  shows "lookup_type c = []"
proof -
  have "find (\<lambda>k. map_of ERROR_CODES k = Some c) (map fst ERROR_CODES) = None"
    unfolding find_None_iff
  proof
    assume "\<exists>k. k \<in> set (map fst ERROR_CODES) \<and> map_of ERROR_CODES k = Some c"
    then obtain k where "map_of ERROR_CODES k = Some c" by blast
    then have "(k, c) \<in> set ERROR_CODES" by (rule map_of_SomeD)
    then have "c \<in> snd ` set ERROR_CODES" by force
    with assms show False by contradiction
  qed
  then show ?thesis by (simp add: lookup_type_def)
qed

lemma ERROR_CODES_unique_key:
  assumes "map_of ERROR_CODES k = Some c" and "map_of ERROR_CODES k' = Some c"
  shows "k' = k"
proof -
  have "(k, c) \<in> set ERROR_CODES" and "(k', c) \<in> set ERROR_CODES"
    using assms by (auto dest: map_of_SomeD)
  then have "lookup_type c = k" and "lookup_type c = k'"
    by (auto dest: lookup_type_member)
  then show ?thesis by simp
qed

text \<open>
  Claim C2. A \<^verbatim>\<open>TransportError\<close> built from a method name, a numeric code and a message
  exposes that code, the method and the message text. Its message string is the method,
  \<^verbatim>\<open>: \<close>, the code as JavaScript prints it, \<^verbatim>\<open>: \<close> and the message; for a safe integer
  the printed code is an optional minus sign and the decimal digits, without a leading
  zero, that denote its magnitude, and every code of the table is a safe integer;
  \<^verbatim>\<open>NaN\<close> and the infinities print as their names, any other number as the language
  prints it. The
  values of \<^verbatim>\<open>ERROR_CODES\<close> are pairwise distinct, and whenever \<^verbatim>\<open>ERROR_CODES[k]\<close> is
  the code, the type field is \<open>k\<close> and \<open>k\<close> is the only such name.
\<close>

theorem TransportError_round_trip:
  "code (TransportError engine m c t) = c
   \<and> method_field (TransportError engine m c t) = m
   \<and> text_field (TransportError engine m c t) = t
   \<and> message (TransportError engine m c t) = m @ '': '' @ number_to_string engine c @ '': '' @ t
   \<and> (\<forall>q. is_safe_integer q \<longrightarrow>
         (\<exists>ds. number_to_string engine (Finite q) = (if q < 0 then ''-'' else []) @ ds
            \<and> ds \<noteq> [] \<and> set ds \<subseteq> set ''0123456789''
            \<and> (hd ds = CHR ''0'' \<longrightarrow> ds = ''0'')
            \<and> of_nat (decimal_value ds) = \<bar>q\<bar>))
   \<and> (\<forall>q. \<not> is_safe_integer q \<longrightarrow> number_to_string engine (Finite q) = engine q)
   \<and> number_to_string engine NaN = ''NaN''
   \<and> number_to_string engine PosInfinity = ''Infinity''
   \<and> number_to_string engine NegInfinity = ''-Infinity''
   \<and> list_all (\<lambda>v. case v of Finite q \<Rightarrow> is_safe_integer q | _ \<Rightarrow> False)
        (map snd ERROR_CODES)
   \<and> distinct (map snd ERROR_CODES)
   \<and> (\<forall>k. map_of ERROR_CODES k = Some c \<longrightarrow>
          type (TransportError engine m c t) = k
          \<and> (\<forall>k'. map_of ERROR_CODES k' = Some c \<longrightarrow> k' = k))"
proof -
  have fields: "code (TransportError engine m c t) = c"
    "method_field (TransportError engine m c t) = m"
    "text_field (TransportError engine m c t) = t"
    "message (TransportError engine m c t)
       = m @ '': '' @ number_to_string engine c @ '': '' @ t"
    by (simp_all add: TransportError_def)
  have type: "type (TransportError engine m c t) = lookup_type c"
    by (simp add: TransportError_def)
  have trip: "type (TransportError engine m c t) = k
      \<and> (\<forall>k'. map_of ERROR_CODES k' = Some c \<longrightarrow> k' = k)"
    if "map_of ERROR_CODES k = Some c" for k
  proof -
    from that have "(k, c) \<in> set ERROR_CODES" by (rule map_of_SomeD)
    then have "lookup_type c = k" by (rule lookup_type_member)
    with type that ERROR_CODES_unique_key show ?thesis by auto
  qed
  have rendering: "\<forall>q. is_safe_integer q \<longrightarrow>
         (\<exists>ds. number_to_string engine (Finite q) = (if q < 0 then ''-'' else []) @ ds
            \<and> ds \<noteq> [] \<and> set ds \<subseteq> set ''0123456789''
            \<and> (hd ds = CHR ''0'' \<longrightarrow> ds = ''0'')
            \<and> of_nat (decimal_value ds) = \<bar>q\<bar>)"
    using safe_integer_rendering by blast
  have others: "\<forall>q. \<not> is_safe_integer q \<longrightarrow> number_to_string engine (Finite q) = engine q"
    "number_to_string engine NaN = ''NaN''"
    "number_to_string engine PosInfinity = ''Infinity''"
    "number_to_string engine NegInfinity = ''-Infinity''"
    by (simp_all add: number_to_string_def)
  from fields rendering others ERROR_CODES_safe ERROR_CODES_values_distinct trip
  show ?thesis
    by (intro conjI allI impI) blast+
qed

text \<open>The round trip at the code of \<^verbatim>\<open>ACCOUNT_LOCKED\<close>.\<close>

theorem TransportError_round_trip_witness:
  "map_of ERROR_CODES ''ACCOUNT_LOCKED'' = Some (Finite (- 32020))
   \<and> is_safe_integer (- 32020)
   \<and> type (TransportError blank ''personal_signTransaction'' (Finite (- 32020)) ''locked'')
       = ''ACCOUNT_LOCKED''
   \<and> message (TransportError blank ''personal_signTransaction'' (Finite (- 32020)) ''locked'')
       = ''personal_signTransaction: -32020: locked''"
proof -
  have h: "map_of ERROR_CODES ''ACCOUNT_LOCKED'' = Some (Finite (- 32020))"
    by (simp add: ERROR_CODES_def)
  have s: "is_safe_integer (- 32020)"
    by (simp add: is_safe_integer_def)
  have n: "number_to_string blank (Finite (- 32020)) = ''-32020''"
    by (simp add: render_number)
  from h s n
    TransportError_round_trip [of blank "''personal_signTransaction''" "Finite (- 32020)"
      "''locked''"]
  show ?thesis by simp
qed

text \<open>
  Claim C8. For a code that is not a value of \<^verbatim>\<open>ERROR_CODES\<close>, the constructor still
  returns an error object (the model has no failing branch, as the source has no
  throwing operation): its type field is the empty string, and the code, the method
  and the text are populated.
\<close>

theorem TransportError_unknown_code:
  "c \<notin> snd ` set ERROR_CODES \<Longrightarrow>
     type (TransportError engine m c t) = []
     \<and> code (TransportError engine m c t) = c
     \<and> method_field (TransportError engine m c t) = m
     \<and> text_field (TransportError engine m c t) = t"
  by (simp add: TransportError_def lookup_type_unknown)

text \<open>The whole object for the unlisted code \<open>0\<close>.\<close>

theorem TransportError_unknown_code_witness:
  "Finite 0 \<notin> snd ` set ERROR_CODES
   \<and> TransportError blank ''eth_call'' (Finite 0) ''failed''
       = \<lparr> message = ''eth_call: 0: failed'', code = Finite 0, type = [],
           method_field = ''eth_call'', text_field = ''failed'' \<rparr>"
proof -
  have h: "Finite 0 \<notin> snd ` set ERROR_CODES"
    by (simp add: ERROR_CODES_def)
  have "message (TransportError blank ''eth_call'' (Finite 0) ''failed'')
          = ''eth_call: 0: failed''"
    by (simp add: TransportError_def render_number)
  with h TransportError_unknown_code [OF h, of blank "''eth_call''" "''failed''"]
  show ?thesis by (simp add: TransportError_def)
qed

section \<open>Properties of the dapp registry write helpers\<close>

subsection \<open>Rounding of the scaled estimate\<close>

lemma toFixed0_nearest: "\<bar>of_int (toFixed0 x) - x\<bar> \<le> 1 / 2"
proof (cases "x < 0")
  case True
  then have eq: "toFixed0 x = - \<lfloor>- x + 1 / 2\<rfloor>"
    by (simp only: toFixed0_def if_True)
  have "of_int \<lfloor>- x + 1 / 2\<rfloor> \<le> - x + 1 / 2"
    by (rule of_int_floor_le)
  moreover have "- x + 1 / 2 < of_int \<lfloor>- x + 1 / 2\<rfloor> + 1"
    by linarith
  ultimately show ?thesis
    unfolding eq of_int_minus by linarith
next
  case False
  then have eq: "toFixed0 x = \<lfloor>x + 1 / 2\<rfloor>"
    by (simp only: toFixed0_def if_False)
  have "of_int \<lfloor>x + 1 / 2\<rfloor> \<le> x + 1 / 2"
    by (rule of_int_floor_le)
  moreover have "x + 1 / 2 < of_int \<lfloor>x + 1 / 2\<rfloor> + 1"
    by linarith
  ultimately show ?thesis
    unfolding eq by linarith
qed

lemma scaled_nat_plus_half:
  "(of_nat n :: rat) * (12 / 10) + 1 / 2 = of_int (12 * int n + 5) / of_int 10"
  by simp

lemma toFixed0_scaled_nat:
  "toFixed0 (of_nat n * (12 / 10)) = (12 * int n + 5) div 10"
proof -
  have "\<not> (of_nat n :: rat) * (12 / 10) < 0" by simp
  then have "toFixed0 (of_nat n * (12 / 10)) = \<lfloor>(of_nat n :: rat) * (12 / 10) + 1 / 2\<rfloor>"
    by (simp only: toFixed0_def if_False)
  also have "\<dots> = \<lfloor>(of_int (12 * int n + 5) :: rat) / of_int 10\<rfloor>"
    by (simp only: scaled_nat_plus_half)
  also have "\<dots> = (12 * int n + 5) div 10"
    by (rule floor_divide_of_int_eq)
  finally show ?thesis .
qed

lemma ceiling_scaled_nat:
  "\<lceil>(of_nat n :: rat) * (12 / 10)\<rceil> = - ((- (12 * int n)) div 10)"
proof -
  have "(of_nat n :: rat) * (12 / 10) = of_int (12 * int n) / of_int 10" by simp
  then have "\<lceil>(of_nat n :: rat) * (12 / 10)\<rceil> = \<lceil>(of_int (12 * int n) :: rat) / of_int 10\<rceil>"
    by (simp only:)
  also have "\<dots> = - ((- (12 * int n)) div 10)"
    by (rule ceiling_divide_eq_div)
  finally show ?thesis .
qed

lemma scaled_div_split:
  fixes q r :: int
  shows "(12 * (5 * q + r) + 5) div 10 = 6 * q + (12 * r + 5) div 10"
    and "(- (12 * (5 * q + r))) div 10 = - (6 * q) + (- (12 * r)) div 10"
proof -
  have "12 * (5 * q + r) + 5 = 10 * (6 * q) + (12 * r + 5)" by simp
  then show "(12 * (5 * q + r) + 5) div 10 = 6 * q + (12 * r + 5) div 10"
    by (simp only: div_mult_self4 [of 10 "6 * q" "12 * r + 5"])
  have "- (12 * (5 * q + r)) = 10 * (- (6 * q)) + (- (12 * r))" by simp
  then show "(- (12 * (5 * q + r))) div 10 = - (6 * q) + (- (12 * r)) div 10"
    by (simp only: div_mult_self4 [of 10 "- (6 * q)" "- (12 * r)"])
qed

lemma rounded_is_ceiling_iff:
  "toFixed0 (of_nat n * (12 / 10)) = \<lceil>(of_nat n :: rat) * (12 / 10)\<rceil>
     \<longleftrightarrow> n mod 5 \<in> {0, 3, 4}"
proof -
  define q where "q = int (n div 5)"
  define r where "r = n mod 5"
  have "n = 5 * (n div 5) + n mod 5" by simp
  then have "int n = int (5 * (n div 5) + n mod 5)" by (rule arg_cong)
  then have n: "int n = 5 * q + int r"
    by (simp only: q_def r_def of_nat_add of_nat_mult of_nat_numeral)
  have "r < 5" by (simp add: r_def)
  then consider "r = 0" | "r = 1" | "r = 2" | "r = 3" | "r = 4"
    by linarith
  then have "((12 * (5 * q + int r) + 5) div 10 = - ((- (12 * (5 * q + int r))) div 10))
               \<longleftrightarrow> r \<in> {0, 3, 4}"
    by cases (simp_all only: scaled_div_split, simp_all)
  then show ?thesis
    by (simp only: toFixed0_scaled_nat ceiling_scaled_nat n r_def)
qed

subsection \<open>Traces of the helpers\<close>

lemma estimate_then_post:
  "then_io (estimateGas inst n opts vals) (\<lambda>gas. postTransaction inst n' (f gas) vals') tr =
     (case estimateGas_answer (inst n) opts vals of
        Resolved g \<Rightarrow> (postTransaction_answer (inst n') (f g) vals',
                       tr @ [EstimateGas n opts vals, PostTransaction n' (f g) vals'])
      | Rejected e \<Rightarrow> (Rejected e, tr @ [EstimateGas n opts vals])
      | Pending \<Rightarrow> (Pending, tr @ [EstimateGas n opts vals]))"
  by (simp add: then_io_def estimateGas_def postTransaction_def split: promise.split)

lemma registerGHH_run:
  "registerGHH inst url hash ownr [] =
     (case estimateGas_answer (inst ''hintURL'') (empty_options \<lparr> opt_from := Some ownr \<rparr>)
             [hash, url] of
        Resolved g \<Rightarrow>
          (postTransaction_answer (inst ''hintURL'')
             (empty_options \<lparr> opt_from := Some ownr,
                opt_gas := Some (GasString (toFixed0 (g * (12 / 10)))) \<rparr>) [hash, url],
           [EstimateGas ''hintURL'' (empty_options \<lparr> opt_from := Some ownr \<rparr>) [hash, url],
            PostTransaction ''hintURL''
              (empty_options \<lparr> opt_from := Some ownr,
                 opt_gas := Some (GasString (toFixed0 (g * (12 / 10)))) \<rparr>) [hash, url]])
      | Rejected e \<Rightarrow>
          (Rejected e,
           [EstimateGas ''hintURL'' (empty_options \<lparr> opt_from := Some ownr \<rparr>) [hash, url]])
      | Pending \<Rightarrow>
          (Pending,
           [EstimateGas ''hintURL'' (empty_options \<lparr> opt_from := Some ownr \<rparr>) [hash, url]]))"
  by (simp add: registerGHH_def Let_def estimate_then_post mul_def split: promise.split)

lemma deleteDapp_run:
  "deleteDapp dappId dappOwner inst [] =
     (case estimateGas_answer (inst ''unregister'') (empty_options \<lparr> opt_from := Some dappOwner \<rparr>)
             [dappId] of
        Resolved g \<Rightarrow>
          (postTransaction_answer (inst ''unregister'')
             (empty_options \<lparr> opt_from := Some dappOwner,
                opt_gas := Some (GasString (toFixed0 (g * (12 / 10)))) \<rparr>) [dappId],
           [EstimateGas ''unregister'' (empty_options \<lparr> opt_from := Some dappOwner \<rparr>) [dappId],
            PostTransaction ''unregister''
              (empty_options \<lparr> opt_from := Some dappOwner,
                 opt_gas := Some (GasString (toFixed0 (g * (12 / 10)))) \<rparr>) [dappId]])
      | Rejected e \<Rightarrow>
          (Rejected e,
           [EstimateGas ''unregister'' (empty_options \<lparr> opt_from := Some dappOwner \<rparr>) [dappId]])
      | Pending \<Rightarrow>
          (Pending,
           [EstimateGas ''unregister'' (empty_options \<lparr> opt_from := Some dappOwner \<rparr>) [dappId]]))"
  by (simp add: deleteDapp_def Let_def estimate_then_post mul_def split: promise.split)

lemma updateDappOwner_run:
  "updateDappOwner dappId dappOwner nxt inst [] =
     (case estimateGas_answer (inst ''setDappOwner'')
             (empty_options \<lparr> opt_from := Some dappOwner \<rparr>) [dappId, nxt] of
        Resolved g \<Rightarrow>
          (postTransaction_answer (inst ''setDappOwner'')
             (empty_options \<lparr> opt_from := Some dappOwner,
                opt_gas := Some (GasBigNumber (g * (12 / 10))) \<rparr>) [dappId, nxt],
           [EstimateGas ''setDappOwner'' (empty_options \<lparr> opt_from := Some dappOwner \<rparr>)
              [dappId, nxt],
            PostTransaction ''setDappOwner''
              (empty_options \<lparr> opt_from := Some dappOwner,
                 opt_gas := Some (GasBigNumber (g * (12 / 10))) \<rparr>) [dappId, nxt]])
      | Rejected e \<Rightarrow>
          (Rejected e,
           [EstimateGas ''setDappOwner'' (empty_options \<lparr> opt_from := Some dappOwner \<rparr>)
              [dappId, nxt]])
      | Pending \<Rightarrow>
          (Pending,
           [EstimateGas ''setDappOwner'' (empty_options \<lparr> opt_from := Some dappOwner \<rparr>)
              [dappId, nxt]]))"
  by (simp add: updateDappOwner_def Let_def estimate_then_post mul_def split: promise.split)

lemma registerDapp_run:
  "registerDapp dappId inst [] =
     (case call_answer (inst ''fee'') empty_options [] of
        Resolved v \<Rightarrow>
          (case estimateGas_answer (inst ''register'') (empty_options \<lparr> opt_value := Some v \<rparr>)
                  [dappId] of
             Resolved g \<Rightarrow>
               (postTransaction_answer (inst ''register'')
                  (empty_options \<lparr> opt_value := Some v,
                     opt_gas := Some (GasString (toFixed0 (g * (12 / 10)))) \<rparr>) [dappId],
                [Call ''fee'' empty_options [],
                 EstimateGas ''register'' (empty_options \<lparr> opt_value := Some v \<rparr>) [dappId],
                 PostTransaction ''register''
                   (empty_options \<lparr> opt_value := Some v,
                      opt_gas := Some (GasString (toFixed0 (g * (12 / 10)))) \<rparr>) [dappId]])
           | Rejected e \<Rightarrow>
               (Rejected e,
                [Call ''fee'' empty_options [],
                 EstimateGas ''register'' (empty_options \<lparr> opt_value := Some v \<rparr>) [dappId]])
           | Pending \<Rightarrow>
               (Pending,
                [Call ''fee'' empty_options [],
                 EstimateGas ''register'' (empty_options \<lparr> opt_value := Some v \<rparr>) [dappId]]))
      | Rejected e \<Rightarrow> (Rejected e, [Call ''fee'' empty_options []])
      | Pending \<Rightarrow> (Pending, [Call ''fee'' empty_options []]))"
proof -
  have start: "call inst ''fee'' empty_options [] [] =
      (call_answer (inst ''fee'') empty_options [], [Call ''fee'' empty_options []])"
    by (simp add: call_def)
  show ?thesis
    unfolding registerDapp_def Let_def
    by (subst then_io_def) (simp add: start estimate_then_post mul_def split: promise.split)
qed

subsection \<open>The submitted gas limit\<close>

lemma registerGHH_gas:
  "estimateGas_answer (inst ''hintURL'') (empty_options \<lparr> opt_from := Some ownr \<rparr>) [hash, url]
     = Resolved g \<Longrightarrow>
   submitted_gas (snd (registerGHH inst url hash ownr []))
     = [Some (GasString (toFixed0 (g * (12 / 10))))]"
  by (simp add: registerGHH_run)

lemma registerDapp_gas:
  "call_answer (inst ''fee'') empty_options [] = Resolved v \<Longrightarrow>
   estimateGas_answer (inst ''register'') (empty_options \<lparr> opt_value := Some v \<rparr>) [dappId]
     = Resolved g \<Longrightarrow>
   submitted_gas (snd (registerDapp dappId inst []))
     = [Some (GasString (toFixed0 (g * (12 / 10))))]"
  by (simp add: registerDapp_run)

lemma deleteDapp_gas:
  "estimateGas_answer (inst ''unregister'') (empty_options \<lparr> opt_from := Some dappOwner \<rparr>)
     [dappId] = Resolved g \<Longrightarrow>
   submitted_gas (snd (deleteDapp dappId dappOwner inst []))
     = [Some (GasString (toFixed0 (g * (12 / 10))))]"
  by (simp add: deleteDapp_run)

lemma updateDappOwner_gas:
  "estimateGas_answer (inst ''setDappOwner'') (empty_options \<lparr> opt_from := Some dappOwner \<rparr>)
     [dappId, nxt] = Resolved g \<Longrightarrow>
   submitted_gas (snd (updateDappOwner dappId dappOwner nxt inst []))
     = [Some (GasBigNumber (g * (12 / 10)))]"
  by (simp add: updateDappOwner_run)

text \<open>
  Claim C1, as stated, fails: for the estimate \<open>1\<close> \<^verbatim>\<open>registerGHH\<close> submits the gas
  limit \<open>1\<close>, and the ceiling of \<open>1.2\<close> is \<open>2\<close>.
\<close>

theorem registerGHH_gas_not_ceiling:
  "submitted_gas (snd (registerGHH (backend Pending (Resolved 1)) ''https://a.b'' ''0xaa''
       ''0x01'' [])) = [Some (GasString 1)]
   \<and> \<lceil>(1 :: rat) * (12 / 10)\<rceil> = 2"
proof -
  have "toFixed0 (1 * (12 / 10)) = 1"
    using toFixed0_scaled_nat [of 1] by simp
  moreover have "\<lceil>(1 :: rat) * (12 / 10)\<rceil> = 2"
    using ceiling_scaled_nat [of 1] by simp
  ultimately show ?thesis
    by (simp add: registerGHH_run backend_def)
qed

text \<open>
  Claim C1, amended. For \<^verbatim>\<open>registerGHH\<close>, \<^verbatim>\<open>registerDapp\<close> and \<^verbatim>\<open>deleteDapp\<close>, a gas
  estimate \<open>g\<close> results in exactly one submitted transaction, whose gas limit is the
  decimal string of \<open>g * 1.2\<close> rounded to the nearest integer (at most one half away
  from \<open>g * 1.2\<close>). For a natural number \<open>g\<close> that integer is \<open>(12 g + 5) div 10\<close>, and
  it is the ceiling of \<open>g * 1.2\<close> exactly when \<open>g mod 5\<close> is \<open>0\<close>, \<open>3\<close> or \<open>4\<close>.
\<close>

theorem gas_limit_is_rounded_estimate:
  "(estimateGas_answer (inst ''hintURL'') (empty_options \<lparr> opt_from := Some ownr \<rparr>)
        [hash, url] = Resolved g \<longrightarrow>
      submitted_gas (snd (registerGHH inst url hash ownr []))
        = [Some (GasString (toFixed0 (g * (12 / 10))))])
   \<and> (call_answer (inst ''fee'') empty_options [] = Resolved v
        \<and> estimateGas_answer (inst ''register'') (empty_options \<lparr> opt_value := Some v \<rparr>)
              [dappId] = Resolved g \<longrightarrow>
      submitted_gas (snd (registerDapp dappId inst []))
        = [Some (GasString (toFixed0 (g * (12 / 10))))])
   \<and> (estimateGas_answer (inst ''unregister'') (empty_options \<lparr> opt_from := Some dappOwner \<rparr>)
        [dappId] = Resolved g \<longrightarrow>
      submitted_gas (snd (deleteDapp dappId dappOwner inst []))
        = [Some (GasString (toFixed0 (g * (12 / 10))))])
   \<and> \<bar>of_int (toFixed0 (g * (12 / 10))) - g * (12 / 10)\<bar> \<le> 1 / 2
   \<and> (\<forall>n. g = of_nat n \<longrightarrow>
          toFixed0 (g * (12 / 10)) = (12 * int n + 5) div 10
          \<and> (toFixed0 (g * (12 / 10)) = \<lceil>g * (12 / 10)\<rceil> \<longleftrightarrow> n mod 5 \<in> {0, 3, 4}))"
proof (intro conjI impI allI)
  show "\<bar>of_int (toFixed0 (g * (12 / 10))) - g * (12 / 10)\<bar> \<le> 1 / 2"
    by (rule toFixed0_nearest)
next
  fix n assume "g = of_nat n"
  then show "toFixed0 (g * (12 / 10)) = (12 * int n + 5) div 10"
    by (simp only: toFixed0_scaled_nat)
next
  fix n assume "g = of_nat n"
  then show "toFixed0 (g * (12 / 10)) = \<lceil>g * (12 / 10)\<rceil> \<longleftrightarrow> n mod 5 \<in> {0, 3, 4}"
    by (simp only: rounded_is_ceiling_iff)
qed (simp_all only: registerGHH_gas registerDapp_gas deleteDapp_gas)

text \<open>The estimate \<open>21001\<close>: \<open>25201.2\<close> is submitted as \<open>25201\<close>.\<close>

theorem gas_limit_is_rounded_estimate_witness:
  "estimateGas_answer (backend (Resolved 7) (Resolved 21001) ''unregister'')
      (empty_options \<lparr> opt_from := Some ''0x01'' \<rparr>) [''dapp''] = Resolved 21001
   \<and> submitted_gas (snd (deleteDapp ''dapp'' ''0x01'' (backend (Resolved 7) (Resolved 21001)) []))
       = [Some (GasString 25201)]
   \<and> submitted_gas (snd (registerDapp ''dapp'' (backend (Resolved 7) (Resolved 21001)) []))
       = [Some (GasString 25201)]
   \<and> submitted_gas (snd (registerGHH (backend (Resolved 7) (Resolved 21001)) ''https://a.b''
         ''0xaa'' ''0x01'' [])) = [Some (GasString 25201)]"
proof -
  have r: "toFixed0 (21001 * (12 / 10)) = 25201"
    using toFixed0_scaled_nat [of 21001] by simp
  have e: "estimateGas_answer (backend (Resolved 7) (Resolved 21001) name) opts vals
             = Resolved 21001" for name opts vals
    by (simp add: backend_def)
  have c: "call_answer (backend (Resolved 7) (Resolved 21001) name) opts vals = Resolved 7"
    for name opts vals
    by (simp add: backend_def)
  from gas_limit_is_rounded_estimate
    [of "backend (Resolved 7) (Resolved 21001)" "''0x01''" "''0xaa''" "''https://a.b''"
        21001 7 "''dapp''" "''0x01''"]
  show ?thesis
    by (simp only: e c r simp_thms)
qed

text \<open>
  \<^verbatim>\<open>updateDappOwner\<close> assigns \<^verbatim>\<open>gas.mul(1.2)\<close> without \<^verbatim>\<open>toFixed(0)\<close>: the estimate
  \<open>1\<close> is submitted with the gas limit \<open>6/5\<close>, which is no integer.
\<close>

lemma updateDappOwner_gas_unrounded:
  "submitted_gas (snd (updateDappOwner ''dapp'' ''0x01'' ''0x02'' (backend Pending (Resolved 1)) []))
     = [Some (GasBigNumber (6 / 5))]"
  by (simp add: updateDappOwner_run backend_def)

subsection \<open>Order of estimate and submission\<close>

lemma estimate_then_post_order:
  assumes run: "h = (case est of
        Resolved g \<Rightarrow> (ans g, [EstimateGas n opts vals, PostTransaction n' (f g) vals'])
      | Rejected e \<Rightarrow> (Rejected e, [EstimateGas n opts vals])
      | Pending \<Rightarrow> (Pending, [EstimateGas n opts vals]))"
  shows "(\<forall>i<length (snd h). is_post (snd h ! i) \<longrightarrow>
            (\<exists>j<i. is_estimate (snd h ! j)) \<and> (\<exists>g. est = Resolved g))
         \<and> (\<forall>e. est = Rejected e \<longrightarrow> filter is_post (snd h) = [] \<and> fst h = Rejected e)"
proof (cases est)
  case (Resolved g)
  with run have "h = (ans g, [EstimateGas n opts vals, PostTransaction n' (f g) vals'])"
    by simp
  with Resolved show ?thesis
    by (simp add: All_less_Suc Ex_less_Suc)
next
  case (Rejected e)
  with run have "h = (Rejected e, [EstimateGas n opts vals])"
    by simp
  with Rejected show ?thesis
    by (simp add: All_less_Suc)
next
  case Pending
  with run have "h = (Pending, [EstimateGas n opts vals])"
    by simp
  with Pending show ?thesis
    by (simp add: All_less_Suc)
qed

lemma registerGHH_order:
  "(\<forall>i<length (snd (registerGHH inst url hash ownr [])).
       is_post (snd (registerGHH inst url hash ownr []) ! i) \<longrightarrow>
         (\<exists>j<i. is_estimate (snd (registerGHH inst url hash ownr []) ! j))
         \<and> (\<exists>g. estimateGas_answer (inst ''hintURL'')
                    (empty_options \<lparr> opt_from := Some ownr \<rparr>) [hash, url] = Resolved g))
   \<and> (\<forall>e. estimateGas_answer (inst ''hintURL'')
              (empty_options \<lparr> opt_from := Some ownr \<rparr>) [hash, url] = Rejected e \<longrightarrow>
          filter is_post (snd (registerGHH inst url hash ownr [])) = []
          \<and> fst (registerGHH inst url hash ownr []) = Rejected e)"
  by (rule estimate_then_post_order) (rule registerGHH_run)

lemma deleteDapp_order:
  "(\<forall>i<length (snd (deleteDapp dappId dappOwner inst [])).
       is_post (snd (deleteDapp dappId dappOwner inst []) ! i) \<longrightarrow>
         (\<exists>j<i. is_estimate (snd (deleteDapp dappId dappOwner inst []) ! j))
         \<and> (\<exists>g. estimateGas_answer (inst ''unregister'')
                    (empty_options \<lparr> opt_from := Some dappOwner \<rparr>) [dappId] = Resolved g))
   \<and> (\<forall>e. estimateGas_answer (inst ''unregister'')
              (empty_options \<lparr> opt_from := Some dappOwner \<rparr>) [dappId] = Rejected e \<longrightarrow>
          filter is_post (snd (deleteDapp dappId dappOwner inst [])) = []
          \<and> fst (deleteDapp dappId dappOwner inst []) = Rejected e)"
  by (rule estimate_then_post_order) (rule deleteDapp_run)

lemma updateDappOwner_order:
  "(\<forall>i<length (snd (updateDappOwner dappId dappOwner nxt inst [])).
       is_post (snd (updateDappOwner dappId dappOwner nxt inst []) ! i) \<longrightarrow>
         (\<exists>j<i. is_estimate (snd (updateDappOwner dappId dappOwner nxt inst []) ! j))
         \<and> (\<exists>g. estimateGas_answer (inst ''setDappOwner'')
                    (empty_options \<lparr> opt_from := Some dappOwner \<rparr>) [dappId, nxt] = Resolved g))
   \<and> (\<forall>e. estimateGas_answer (inst ''setDappOwner'')
              (empty_options \<lparr> opt_from := Some dappOwner \<rparr>) [dappId, nxt] = Rejected e \<longrightarrow>
          filter is_post (snd (updateDappOwner dappId dappOwner nxt inst [])) = []
          \<and> fst (updateDappOwner dappId dappOwner nxt inst []) = Rejected e)"
  by (rule estimate_then_post_order) (rule updateDappOwner_run)

lemma registerDapp_order:
  "(\<forall>i<length (snd (registerDapp dappId inst [])).
       is_post (snd (registerDapp dappId inst []) ! i) \<longrightarrow>
         (\<exists>j<i. is_estimate (snd (registerDapp dappId inst []) ! j))
         \<and> (\<exists>v g. call_answer (inst ''fee'') empty_options [] = Resolved v
                \<and> estimateGas_answer (inst ''register'')
                    (empty_options \<lparr> opt_value := Some v \<rparr>) [dappId] = Resolved g))
   \<and> (\<forall>v e. call_answer (inst ''fee'') empty_options [] = Resolved v
          \<and> estimateGas_answer (inst ''register'')
              (empty_options \<lparr> opt_value := Some v \<rparr>) [dappId] = Rejected e \<longrightarrow>
          filter is_post (snd (registerDapp dappId inst [])) = []
          \<and> fst (registerDapp dappId inst []) = Rejected e)"
proof (cases "call_answer (inst ''fee'') empty_options []")
  case answered: (Resolved v)
  show ?thesis
  proof (cases "estimateGas_answer (inst ''register'')
                  (empty_options \<lparr> opt_value := Some v \<rparr>) [dappId]")
    case (Resolved g)
    with answered show ?thesis
      by (simp add: registerDapp_run All_less_Suc Ex_less_Suc)
  next
    case (Rejected e)
    with answered show ?thesis
      by (simp add: registerDapp_run All_less_Suc)
  next
    case Pending
    with answered show ?thesis
      by (simp add: registerDapp_run All_less_Suc)
  qed
next
  case (Rejected e)
  then show ?thesis
    by (simp add: registerDapp_run)
next
  case Pending
  then show ?thesis
    by (simp add: registerDapp_run)
qed

text \<open>
  Claim C5. In the trace of each write helper (\<^verbatim>\<open>registerGHH\<close>, \<^verbatim>\<open>registerDapp\<close>,
  \<^verbatim>\<open>deleteDapp\<close>, \<^verbatim>\<open>updateDappOwner\<close>) every \<^verbatim>\<open>postTransaction\<close> request comes after an
  \<^verbatim>\<open>estimateGas\<close> request, and that estimate has resolved; when the estimate is rejected
  no transaction is submitted and the helper's promise is rejected with the same error.
\<close>

theorem submission_only_after_estimate:
  "((\<forall>i<length (snd (registerGHH inst url hash ownr [])).
       is_post (snd (registerGHH inst url hash ownr []) ! i) \<longrightarrow>
         (\<exists>j<i. is_estimate (snd (registerGHH inst url hash ownr []) ! j))
         \<and> (\<exists>g. estimateGas_answer (inst ''hintURL'')
                    (empty_options \<lparr> opt_from := Some ownr \<rparr>) [hash, url] = Resolved g))
    \<and> (\<forall>e. estimateGas_answer (inst ''hintURL'')
              (empty_options \<lparr> opt_from := Some ownr \<rparr>) [hash, url] = Rejected e \<longrightarrow>
          filter is_post (snd (registerGHH inst url hash ownr [])) = []
          \<and> fst (registerGHH inst url hash ownr []) = Rejected e))
   \<and> ((\<forall>i<length (snd (registerDapp dappId inst [])).
       is_post (snd (registerDapp dappId inst []) ! i) \<longrightarrow>
         (\<exists>j<i. is_estimate (snd (registerDapp dappId inst []) ! j))
         \<and> (\<exists>v g. call_answer (inst ''fee'') empty_options [] = Resolved v
                \<and> estimateGas_answer (inst ''register'')
                    (empty_options \<lparr> opt_value := Some v \<rparr>) [dappId] = Resolved g))
    \<and> (\<forall>v e. call_answer (inst ''fee'') empty_options [] = Resolved v
          \<and> estimateGas_answer (inst ''register'')
              (empty_options \<lparr> opt_value := Some v \<rparr>) [dappId] = Rejected e \<longrightarrow>
          filter is_post (snd (registerDapp dappId inst [])) = []
          \<and> fst (registerDapp dappId inst []) = Rejected e))
   \<and> ((\<forall>i<length (snd (deleteDapp dappId dappOwner inst [])).
       is_post (snd (deleteDapp dappId dappOwner inst []) ! i) \<longrightarrow>
         (\<exists>j<i. is_estimate (snd (deleteDapp dappId dappOwner inst []) ! j))
         \<and> (\<exists>g. estimateGas_answer (inst ''unregister'')
                    (empty_options \<lparr> opt_from := Some dappOwner \<rparr>) [dappId] = Resolved g))
    \<and> (\<forall>e. estimateGas_answer (inst ''unregister'')
              (empty_options \<lparr> opt_from := Some dappOwner \<rparr>) [dappId] = Rejected e \<longrightarrow>
          filter is_post (snd (deleteDapp dappId dappOwner inst [])) = []
          \<and> fst (deleteDapp dappId dappOwner inst []) = Rejected e))
   \<and> ((\<forall>i<length (snd (updateDappOwner dappId dappOwner nxt inst [])).
       is_post (snd (updateDappOwner dappId dappOwner nxt inst []) ! i) \<longrightarrow>
         (\<exists>j<i. is_estimate (snd (updateDappOwner dappId dappOwner nxt inst []) ! j))
         \<and> (\<exists>g. estimateGas_answer (inst ''setDappOwner'')
                    (empty_options \<lparr> opt_from := Some dappOwner \<rparr>) [dappId, nxt] = Resolved g))
    \<and> (\<forall>e. estimateGas_answer (inst ''setDappOwner'')
              (empty_options \<lparr> opt_from := Some dappOwner \<rparr>) [dappId, nxt] = Rejected e \<longrightarrow>
          filter is_post (snd (updateDappOwner dappId dappOwner nxt inst [])) = []
          \<and> fst (updateDappOwner dappId dappOwner nxt inst []) = Rejected e))"
  by (intro conjI registerGHH_order [THEN conjunct1] registerGHH_order [THEN conjunct2]
        registerDapp_order [THEN conjunct1] registerDapp_order [THEN conjunct2]
        deleteDapp_order [THEN conjunct1] deleteDapp_order [THEN conjunct2]
        updateDappOwner_order [THEN conjunct1] updateDappOwner_order [THEN conjunct2])

text \<open>
  A rejected estimate: \<^verbatim>\<open>deleteDapp\<close> makes the one estimate request and rejects. A
  resolved estimate: \<^verbatim>\<open>registerDapp\<close> asks for the fee, estimates, then submits.
\<close>

theorem submission_only_after_estimate_witness:
  "deleteDapp ''dapp'' ''0x01'' (backend Pending (Rejected ''out of gas'')) []
     = (Rejected ''out of gas'',
        [EstimateGas ''unregister'' (empty_options \<lparr> opt_from := Some ''0x01'' \<rparr>) [''dapp'']])
   \<and> filter is_post
        (snd (deleteDapp ''dapp'' ''0x01'' (backend Pending (Rejected ''out of gas'')) [])) = []
   \<and> snd (registerDapp ''dapp'' (backend (Resolved 7) (Resolved 21000)) [])
       = [Call ''fee'' empty_options [],
          EstimateGas ''register'' (empty_options \<lparr> opt_value := Some 7 \<rparr>) [''dapp''],
          PostTransaction ''register''
            (empty_options \<lparr> opt_value := Some 7, opt_gas := Some (GasString 25200) \<rparr>)
            [''dapp'']]"
proof -
  have e: "estimateGas_answer (backend Pending (Rejected ''out of gas'') ''unregister'')
             (empty_options \<lparr> opt_from := Some ''0x01'' \<rparr>) [''dapp''] = Rejected ''out of gas''"
    by (simp add: backend_def)
  have r: "toFixed0 25200 = 25200"
    using toFixed0_scaled_nat [of 21000] by simp
  have run: "snd (registerDapp ''dapp'' (backend (Resolved 7) (Resolved 21000)) [])
       = [Call ''fee'' empty_options [],
          EstimateGas ''register'' (empty_options \<lparr> opt_value := Some 7 \<rparr>) [''dapp''],
          PostTransaction ''register''
            (empty_options \<lparr> opt_value := Some 7, opt_gas := Some (GasString 25200) \<rparr>)
            [''dapp'']]"
    by (simp add: registerDapp_run backend_def r)
  from submission_only_after_estimate
    [of "backend Pending (Rejected ''out of gas'')" "''u''" "''h''" "''o''" "''dapp''" "''0x01''"
        "''0x02''"]
  have "filter is_post
          (snd (deleteDapp ''dapp'' ''0x01'' (backend Pending (Rejected ''out of gas'')) [])) = []
        \<and> fst (deleteDapp ''dapp'' ''0x01'' (backend Pending (Rejected ''out of gas'')) [])
            = Rejected ''out of gas''"
    using e by blast
  moreover have "snd (deleteDapp ''dapp'' ''0x01'' (backend Pending (Rejected ''out of gas'')) [])
      = [EstimateGas ''unregister'' (empty_options \<lparr> opt_from := Some ''0x01'' \<rparr>) [''dapp'']]"
    by (simp add: deleteDapp_run e)
  ultimately show ?thesis
    using run by (simp add: prod_eq_iff)
qed

section \<open>Properties of the transfer wizard\<close>

lemmas button_defs = cancelBtn_def nextBtn_def prevBtn_def sendBtn_def doneBtn_def

lemma offered_cases:
  assumes "b \<in> set (renderDialogActions address s)"
  obtains (details_cancel) "stage s = 0" "b = cancelBtn"
    | (details_next) "stage s = 0" "extras s" "b = nextBtn s"
    | (details_send) "stage s = 0" "\<not> extras s" "b = sendBtn address s"
    | (extras_cancel) "stage s = 1" "extras s" "b = cancelBtn"
    | (extras_back) "stage s = 1" "extras s" "b = prevBtn"
    | (extras_send) "stage s = 1" "extras s" "b = sendBtn address s"
    | (closing_only) "stage s \<noteq> 0" "\<not> (stage s = 1 \<and> extras s)" "b = doneBtn"
  using assms by (auto simp add: renderDialogActions_def split: if_splits)

lemma click_offered:
  "click cancelBtn s = None"
  "click doneBtn s = None"
  "click prevBtn s = Some (s \<lparr> stage := stage s - 1 \<rparr>)"
  "click (nextBtn s) s = (if isValid s then Some (s \<lparr> stage := stage s + 1 \<rparr>) else Some s)"
  "click (sendBtn address s) s =
     (if isValid s \<and> \<not> sending s then Some (s \<lparr> stage := stage s + 1, sending := True \<rparr>)
      else Some s)"
  by (simp_all add: click_def button_defs)

lemma button_fields:
  "onClick cancelBtn = handleClose" "onClick doneBtn = handleClose"
  "onClick prevBtn = onPrev" "onClick (nextBtn s) = onNext"
  "onClick (sendBtn address s) = onSend"
  "disabled cancelBtn = False" "disabled doneBtn = False" "disabled prevBtn = False"
  "disabled (nextBtn s) = (\<not> isValid s)"
  "disabled (sendBtn address s) = (\<not> isValid s \<or> sending s)"
  by (simp_all add: button_defs)

lemma button_labels:
  "label cancelBtn = ''Cancel''" "label doneBtn = ''Close''" "label prevBtn = ''Back''"
  "label (nextBtn s) = ''Next''" "label (sendBtn address s) = ''Send''"
  by (simp_all add: button_defs)





text \<open>
  Claim C4. A click on an offered button leaves the store as it is (a disabled
  button), moves it one stage forward, or is the Back action; a Back action
  (\<^verbatim>\<open>onPrev\<close>) is offered exactly in the Extras stage (stage 1 with extras enabled),
  there once, and returns to Details. Every other offered action is Cancel or Close
  (closing the modal), Next or Send. From stage 2 on, in any stage other than 0 and 1,
  and in each of the Submitting, Completed and Rejected stages, the only action offered
  is Close, which closes the modal and leads to no stage: no transition from
  Submitting to Details is available.
\<close>

theorem back_only_from_extras:
  "((\<exists>b \<in> set (renderDialogActions address s). onClick b = onPrev)
       \<longleftrightarrow> stage s = 1 \<and> extras s)
   \<and> length (filter (\<lambda>b. onClick b = onPrev) (renderDialogActions address s)) \<le> 1
   \<and> (\<forall>b \<in> set (renderDialogActions address s).
         onClick b = onPrev \<longrightarrow> b = prevBtn \<and> label b = ''Back'')
   \<and> (stage s \<noteq> 0 \<and> stage s \<noteq> 1 \<longrightarrow> renderDialogActions address s = [doneBtn])
   \<and> (2 \<le> stage s \<longrightarrow>
         map label (renderDialogActions address s) = [''Close'']
         \<and> map onClick (renderDialogActions address s) = [handleClose])
   \<and> (\<forall>b \<in> set (renderDialogActions address s). \<forall>s'. click b s = Some s' \<longrightarrow>
         (disabled b \<and> s' = s)
         \<or> (onClick b \<noteq> onPrev \<and> stage s' = stage s + 1)
         \<or> (onClick b = onPrev \<and> wizard_stage_of s = StageExtras
              \<and> wizard_stage_of s' = StageDetails))
   \<and> (wizard_stage_of s = StageSubmitting \<or> wizard_stage_of s = StageCompleted
        \<or> wizard_stage_of s = StageRejected \<longrightarrow>
         renderDialogActions address s = [doneBtn]
         \<and> label doneBtn = ''Close'' \<and> click doneBtn s = None)"
proof -
  have offered: "((\<exists>b \<in> set (renderDialogActions address s). onClick b = onPrev)
       \<longleftrightarrow> stage s = 1 \<and> extras s)
   \<and> length (filter (\<lambda>b. onClick b = onPrev) (renderDialogActions address s)) \<le> 1
   \<and> (\<forall>b \<in> set (renderDialogActions address s).
         onClick b = onPrev \<longrightarrow> b = prevBtn \<and> label b = ''Back'')
   \<and> (stage s \<noteq> 0 \<and> stage s \<noteq> 1 \<longrightarrow> renderDialogActions address s = [doneBtn])
   \<and> (2 \<le> stage s \<longrightarrow>
         map label (renderDialogActions address s) = [''Close'']
         \<and> map onClick (renderDialogActions address s) = [handleClose])"
    by (simp add: renderDialogActions_def button_defs)
  have moves: "(disabled b \<and> s' = s)
         \<or> (onClick b \<noteq> onPrev \<and> stage s' = stage s + 1)
         \<or> (onClick b = onPrev \<and> wizard_stage_of s = StageExtras
              \<and> wizard_stage_of s' = StageDetails)"
    if "b \<in> set (renderDialogActions address s)" "click b s = Some s'" for b s'
    using that(1)
  proof (cases rule: offered_cases)
    case details_cancel
    with that(2) show ?thesis by (simp add: click_offered)
  next
    case details_next
    with that(2) show ?thesis
      by (auto simp add: click_offered button_fields split: if_splits)
  next
    case details_send
    with that(2) show ?thesis
      by (auto simp add: click_offered button_fields wizard_stage_of_def split: if_splits)
  next
    case extras_cancel
    with that(2) show ?thesis by (simp add: click_offered)
  next
    case extras_back
    with that(2) show ?thesis
      by (auto simp add: click_offered button_fields wizard_stage_of_def)
  next
    case extras_send
    with that(2) show ?thesis
      by (auto simp add: click_offered button_fields wizard_stage_of_def split: if_splits)
  next
    case closing_only
    with that(2) show ?thesis by (simp add: click_offered)
  qed
  have closing: "renderDialogActions address s = [doneBtn]
         \<and> label doneBtn = ''Close'' \<and> click doneBtn s = None"
    if "wizard_stage_of s = StageSubmitting \<or> wizard_stage_of s = StageCompleted
        \<or> wizard_stage_of s = StageRejected"
    using that
    by (auto simp add: wizard_stage_of_def renderDialogActions_def click_offered button_labels
          split: if_splits)
  from offered moves closing show ?thesis
    by blast
qed

text \<open>
  Stage 2 offers Close alone, which closes the modal; the Extras stage offers Cancel,
  Back and Send, and Back returns to Details.
\<close>

theorem back_only_from_extras_witness:
  "renderDialogActions ''0x01'' (store0 \<lparr> stage := 2, extras := True \<rparr>) = [doneBtn]
   \<and> map onClick (renderDialogActions ''0x01'' (store0 \<lparr> stage := 2, extras := True \<rparr>))
       = [handleClose]
   \<and> click doneBtn (store0 \<lparr> stage := 2, extras := True \<rparr>) = None
   \<and> map onClick (renderDialogActions ''0x01'' (store0 \<lparr> stage := 1, extras := True \<rparr>))
       = [handleClose, onPrev, onSend]
   \<and> map_option wizard_stage_of (click prevBtn (store0 \<lparr> stage := 1, extras := True \<rparr>))
       = Some StageDetails"
  using back_only_from_extras [of "''0x01''" "store0 \<lparr> stage := 2, extras := True \<rparr>"]
    back_only_from_extras [of "''0x01''" "store0 \<lparr> stage := 1, extras := True \<rparr>"]
  by (simp add: renderDialogActions_def store0_def button_defs click_def
        wizard_stage_of_def)

text \<open>
  Claim C6. When the store is neither rejected nor sending, the completion page is a
  \<^verbatim>\<open>CompletedStep\<close> whose \<^verbatim>\<open>TxHash\<close> gets the store's transaction hash as it is, and
  which shows the operation hash, as it is, exactly when the store holds one.
\<close>

theorem complete_page_exposes_hash:
  "\<not> rejected s \<Longrightarrow> \<not> sending s \<Longrightarrow>
     (\<exists>shown. renderCompletePage s = Some (CompletedStep (txhash s) shown)
        \<and> (\<forall>oper. operation s = Some oper \<and> oper \<noteq> [] \<longrightarrow> shown = Some oper)
        \<and> (operation s = None \<or> operation s = Some [] \<longrightarrow> shown = None))"
  by (auto simp add: renderCompletePage_def)

text \<open>A wallet transfer: both the transaction hash and the operation hash are shown.\<close>

theorem complete_page_exposes_hash_witness:
  "\<not> rejected (store0 \<lparr> stage := 2, txhash := Some ''0xabc'', operation := Some ''0xdef'' \<rparr>)
   \<and> \<not> sending (store0 \<lparr> stage := 2, txhash := Some ''0xabc'', operation := Some ''0xdef'' \<rparr>)
   \<and> renderCompletePage
        (store0 \<lparr> stage := 2, txhash := Some ''0xabc'', operation := Some ''0xdef'' \<rparr>)
       = Some (CompletedStep (Some ''0xabc'') (Some ''0xdef''))"
  using complete_page_exposes_hash
    [of "store0 \<lparr> stage := 2, txhash := Some ''0xabc'', operation := Some ''0xdef'' \<rparr>"]
  by (simp add: store0_def)

text \<open>
  Claim C9, as stated, fails: in stage 1 with extras enabled and no gas price histogram
  loaded, \<^verbatim>\<open>renderExtrasPage\<close> returns \<^verbatim>\<open>null\<close>, so none of the three pages is rendered.
\<close>

theorem no_page_without_histogram:
  "renderPage (store0 \<lparr> stage := 1, extras := True \<rparr>) = None
   \<and> \<not> is_details (renderPage (store0 \<lparr> stage := 1, extras := True \<rparr>))
   \<and> \<not> is_extras (renderPage (store0 \<lparr> stage := 1, extras := True \<rparr>))
   \<and> \<not> is_complete (renderPage (store0 \<lparr> stage := 1, extras := True \<rparr>))"
  by (simp add: renderPage_def renderExtrasPage_def store0_def)

text \<open>
  Claim C9, amended. With extras off, stage 0 offers Cancel and Send (no Next) and
  stage 1 renders the completion page. For every store exactly one page renderer is
  chosen: Details in stage 0, Extras in stage 1 with extras on, the completion page
  otherwise; the Details and completion renderers always give their page, the Extras
  renderer gives its page when the gas price histogram is loaded and nothing
  otherwise. So at most one page is rendered, and none only in that last case.
\<close>

theorem one_page_renderer_per_stage:
  "(\<not> extras s \<and> stage s = 0 \<longrightarrow>
      renderDialogActions address s = [cancelBtn, sendBtn address s])
   \<and> (\<not> extras s \<and> stage s = 1 \<longrightarrow> is_complete (renderPage s))
   \<and> (is_details (renderPage s) \<longleftrightarrow> stage s = 0)
   \<and> (is_extras (renderPage s) \<longleftrightarrow> stage s = 1 \<and> extras s \<and> histogram s)
   \<and> (is_complete (renderPage s) \<longleftrightarrow> stage s \<noteq> 0 \<and> \<not> (stage s = 1 \<and> extras s))
   \<and> (renderPage s = None \<longleftrightarrow> stage s = 1 \<and> extras s \<and> \<not> histogram s)"
  by (simp add: renderPage_def renderDetailsPage_def renderExtrasPage_def
        renderCompletePage_def renderDialogActions_def)

text \<open>Extras off: Send in stage 0, the completion page in stage 1.\<close>

theorem one_page_renderer_per_stage_witness:
  "\<not> extras store0 \<and> stage store0 = 0
   \<and> map label (renderDialogActions ''0x01'' store0) = [''Cancel'', ''Send'']
   \<and> renderPage store0 = Some Details
   \<and> renderPage (store0 \<lparr> stage := 1 \<rparr>) = Some (CompletedStep None None)"
  using one_page_renderer_per_stage [of store0 "''0x01''"]
    one_page_renderer_per_stage [of "store0 \<lparr> stage := 1 \<rparr>" "''0x01''"]
  by (simp add: store0_def renderPage_def renderDetailsPage_def renderCompletePage_def
        button_defs)

section \<open>Properties of the step indicator\<close>





section \<open>Properties of the root reducer\<close>

text \<open>
  Claim C10. An action whose type is none of \<^verbatim>\<open>set contract\<close>, \<^verbatim>\<open>set fee\<close>,
  \<^verbatim>\<open>set owner\<close> and starts with none of \<^verbatim>\<open>accounts\<close>, \<^verbatim>\<open>lookup\<close>, \<^verbatim>\<open>events\<close>,
  \<^verbatim>\<open>register\<close> leaves the state as it is; each of the three \<^verbatim>\<open>set\<close> actions replaces
  its own field by the action's payload and leaves every other field as it is.
\<close>

theorem reducer_frame:
  "(action_type a \<noteq> ''set contract'' \<and> action_type a \<noteq> ''set fee''
      \<and> action_type a \<noteq> ''set owner''
      \<and> take 8 (action_type a) \<noteq> ''accounts'' \<and> take 6 (action_type a) \<noteq> ''lookup''
      \<and> take 6 (action_type a) \<noteq> ''events'' \<and> take 8 (action_type a) \<noteq> ''register''
      \<longrightarrow> reducer rs (Some s) a = s)
   \<and> (action_type a = ''set contract'' \<longrightarrow>
        reducer rs (Some s) a = s \<lparr> contract := action_contract a \<rparr>
        \<and> accounts (reducer rs (Some s) a) = accounts s
        \<and> fee (reducer rs (Some s) a) = fee s
        \<and> owner (reducer rs (Some s) a) = owner s
        \<and> lookup (reducer rs (Some s) a) = lookup s
        \<and> events (reducer rs (Some s) a) = events s
        \<and> register (reducer rs (Some s) a) = register s)
   \<and> (action_type a = ''set fee'' \<longrightarrow>
        reducer rs (Some s) a = s \<lparr> fee := action_fee a \<rparr>
        \<and> accounts (reducer rs (Some s) a) = accounts s
        \<and> contract (reducer rs (Some s) a) = contract s
        \<and> owner (reducer rs (Some s) a) = owner s
        \<and> lookup (reducer rs (Some s) a) = lookup s
        \<and> events (reducer rs (Some s) a) = events s
        \<and> register (reducer rs (Some s) a) = register s)
   \<and> (action_type a = ''set owner'' \<longrightarrow>
        reducer rs (Some s) a = s \<lparr> owner := action_owner a \<rparr>
        \<and> accounts (reducer rs (Some s) a) = accounts s
        \<and> contract (reducer rs (Some s) a) = contract s
        \<and> fee (reducer rs (Some s) a) = fee s
        \<and> lookup (reducer rs (Some s) a) = lookup s
        \<and> events (reducer rs (Some s) a) = events s
        \<and> register (reducer rs (Some s) a) = register s)"
proof (intro conjI impI)
  assume "action_type a \<noteq> ''set contract'' \<and> action_type a \<noteq> ''set fee''
      \<and> action_type a \<noteq> ''set owner''
      \<and> take 8 (action_type a) \<noteq> ''accounts'' \<and> take 6 (action_type a) \<noteq> ''lookup''
      \<and> take 6 (action_type a) \<noteq> ''events'' \<and> take 8 (action_type a) \<noteq> ''register''"
  then show "reducer rs (Some s) a = s"
    by (simp add: reducer_def)
next
  assume t: "action_type a = ''set contract''"
  then show "reducer rs (Some s) a = s \<lparr> contract := action_contract a \<rparr>"
    by (simp add: reducer_def)
  then show "accounts (reducer rs (Some s) a) = accounts s"
    "fee (reducer rs (Some s) a) = fee s" "owner (reducer rs (Some s) a) = owner s"
    "lookup (reducer rs (Some s) a) = lookup s" "events (reducer rs (Some s) a) = events s"
    "register (reducer rs (Some s) a) = register s"
    by simp_all
next
  assume t: "action_type a = ''set fee''"
  then show "reducer rs (Some s) a = s \<lparr> fee := action_fee a \<rparr>"
    by (simp add: reducer_def)
  then show "accounts (reducer rs (Some s) a) = accounts s"
    "contract (reducer rs (Some s) a) = contract s" "owner (reducer rs (Some s) a) = owner s"
    "lookup (reducer rs (Some s) a) = lookup s" "events (reducer rs (Some s) a) = events s"
    "register (reducer rs (Some s) a) = register s"
    by simp_all
next
  assume t: "action_type a = ''set owner''"
  then show "reducer rs (Some s) a = s \<lparr> owner := action_owner a \<rparr>"
    by (simp add: reducer_def)
  then show "accounts (reducer rs (Some s) a) = accounts s"
    "contract (reducer rs (Some s) a) = contract s" "fee (reducer rs (Some s) a) = fee s"
    "lookup (reducer rs (Some s) a) = lookup s" "events (reducer rs (Some s) a) = events s"
    "register (reducer rs (Some s) a) = register s"
    by simp_all
qed

text \<open>
  On the initial state of the counting sub-reducers: \<^verbatim>\<open>set fee\<close> stores the fee, and an
  action of an unknown type changes nothing.
\<close>

theorem reducer_frame_witness:
  "reducer counters (Some (initialState counters))
      (empty_action \<lparr> action_type := ''set fee'', action_fee := Some ''1000'' \<rparr>)
     = \<lparr> accounts = 0, contract = None, fee = Some ''1000'', owner = None, lookup = 0,
         events = 0, register = 0 \<rparr>
   \<and> reducer counters (Some (initialState counters))
        (empty_action \<lparr> action_type := ''statusCollection'' \<rparr>)
     = initialState counters"
  using reducer_frame [of "empty_action \<lparr> action_type := ''set fee'', action_fee := Some ''1000'' \<rparr>"
      counters "initialState counters"]
    reducer_frame [of "empty_action \<lparr> action_type := ''statusCollection'' \<rparr>"
      counters "initialState counters"]
  by (simp add: empty_action_def initialState_def counters_def counting_def)

end
